theory Spec2Isabelle
  imports Complex_Main "HOL-Library.Multiset"
begin

section \<open>Values of the commission engine\<close>

text \<open>
  The engine of \<^verbatim>\<open>src/services/calculator.ts\<close> computes on JavaScript numbers.
  A finite number is modelled as a rational (every finite double is one) and the
  arithmetic is exact: rounding, overflow and NaN are outside the model. The inputs are
  finite numbers (they come from JSON records); the only non-finite value the code
  itself introduces is \<^verbatim>\<open>Infinity\<close>, for a tier without a ceiling, so the locals that
  may hold it have the type \<open>extnum\<close>.

  An optional or nullable numeric field is a \<open>number option\<close>, \<open>None\<close> standing for
  \<^verbatim>\<open>undefined\<close> and \<^verbatim>\<open>null\<close>.
\<close>

type_synonym number = rat

datatype extnum = Fin number | Infinity

text \<open>\<^verbatim>\<open>ToBoolean\<close> on a numeric field: a missing value and 0 are falsy.\<close>

definition truthy :: "number option \<Rightarrow> bool" where
  "truthy v = (case v of None \<Rightarrow> False | Some x \<Rightarrow> x \<noteq> 0)"

text \<open>\<^verbatim>\<open>v || 0\<close>\<close>

definition orZero :: "number option \<Rightarrow> number" where
  "orZero v = (if truthy v then the v else 0)"

text \<open>\<^verbatim>\<open>v || Infinity\<close>\<close>

definition orInfinity :: "number option \<Rightarrow> extnum" where
  "orInfinity v = (if truthy v then Fin (the v) else Infinity)"

text \<open>\<^verbatim>\<open>s || t\<close> on strings: the empty string is falsy.\<close>

definition orString :: "string \<Rightarrow> string \<Rightarrow> string" where
  "orString s t = (if s = [] then t else s)"

text \<open>\<^verbatim>\<open>c - x\<close>, \<^verbatim>\<open>Math.min(x, c)\<close> and \<^verbatim>\<open>x < c\<close> for a finite \<open>x\<close> and a \<open>c\<close> that may be
  \<^verbatim>\<open>Infinity\<close>.\<close>

fun ext_minus :: "extnum \<Rightarrow> number \<Rightarrow> extnum" where
  "ext_minus Infinity x = Infinity"
| "ext_minus (Fin c) x = Fin (c - x)"

fun ext_min :: "number \<Rightarrow> extnum \<Rightarrow> number" where
  "ext_min x Infinity = x"
| "ext_min x (Fin c) = min x c"

fun ext_less :: "number \<Rightarrow> extnum \<Rightarrow> bool" where
  "ext_less x Infinity = True"
| "ext_less x (Fin c) = (x < c)"

subsection \<open>Records of \<^verbatim>\<open>src/types/index.ts\<close>\<close>

text \<open>The fields \<^verbatim>\<open>Id\<close> and \<^verbatim>\<open>Name\<close> occur in two interfaces; they carry the
  interface as a prefix here.\<close>

record PlanTier =
  tier_Id :: string
  tier_Name :: string
  Comp_Plan__c :: string
  Attainment_Floor__c :: "number option"
  Attainment_Ceiling__c :: "number option"
  Commission_Rate__c :: "number option"
  Order__c :: "number option"

text \<open>Of \<^verbatim>\<open>SalesforceOpportunity\<close> the required scalar fields; the engine reads
  \<^verbatim>\<open>Id\<close>, \<^verbatim>\<open>Name\<close>, \<^verbatim>\<open>Amount\<close> and \<^verbatim>\<open>CloseDate\<close>.\<close>

record SalesforceOpportunity =
  opp_Id :: string
  opp_Name :: string
  Amount :: "number option"
  StageName :: string
  CloseDate :: string
  OwnerId :: string
  CreatedDate :: string

record TierBreakdown =
  tierName :: string
  bookingsInTier :: number
  rateApplied :: number
  commissionAmount :: number

record CommissionCalculation =
  grossCommission :: number
  tierBreakdown :: "TierBreakdown list"
  attainmentPercent :: number

record DealCommission =
  opportunityId :: string
  opportunityName :: string
  dealAmount :: number
  commissionRate :: number
  commissionAmount :: number
  tierApplied :: string
  attainmentAtDeal :: number
  runningBookings :: number

subsection \<open>\<^verbatim>\<open>Array.prototype.sort\<close> with a comparator\<close>

text \<open>
  The sort is stable (ECMAScript 2019), so for a consistent comparator its result is
  determined: each element, taken from the right, goes in front of the first element
  of the sorted rest that it does not compare greater than.
\<close>

fun insertBy :: "('a \<Rightarrow> 'a \<Rightarrow> number) \<Rightarrow> 'a \<Rightarrow> 'a list \<Rightarrow> 'a list" where
  "insertBy cmp x [] = [x]"
| "insertBy cmp x (y # ys) = (if cmp x y \<le> 0 then x # y # ys else y # insertBy cmp x ys)"

definition array_sort :: "('a \<Rightarrow> 'a \<Rightarrow> number) \<Rightarrow> 'a list \<Rightarrow> 'a list" where
  "array_sort cmp xs = foldr (insertBy cmp) xs []"

section \<open>calculateTieredCommission\<close>

text \<open>The comparator \<^verbatim>\<open>(a, b) => (a.Attainment_Floor__c || 0) - (b.Attainment_Floor__c || 0)\<close>.\<close>

definition floorCmp :: "PlanTier \<Rightarrow> PlanTier \<Rightarrow> number" where
  "floorCmp a b = orZero (Attainment_Floor__c a) - orZero (Attainment_Floor__c b)"

text \<open>The locals of the loop body, in the order of the source.\<close>

definition tierFloor :: "PlanTier \<Rightarrow> number" where
  "tierFloor tier = orZero (Attainment_Floor__c tier) / 100"

definition tierCeiling :: "PlanTier \<Rightarrow> extnum" where
  "tierCeiling tier =
     (if truthy (Attainment_Ceiling__c tier) then Fin (the (Attainment_Ceiling__c tier) / 100)
      else Infinity)"

definition tierRate :: "PlanTier \<Rightarrow> number" where
  "tierRate tier = orZero (Commission_Rate__c tier) / 100"

definition tierFloorAmount :: "number \<Rightarrow> PlanTier \<Rightarrow> number" where
  "tierFloorAmount quota tier = tierFloor tier * quota"

definition tierCeilingAmount :: "number \<Rightarrow> PlanTier \<Rightarrow> extnum" where
  "tierCeilingAmount quota tier =
     (case tierCeiling tier of Infinity \<Rightarrow> Infinity | Fin c \<Rightarrow> Fin (c * quota))"

definition bookingsAboveFloor :: "number \<Rightarrow> number \<Rightarrow> PlanTier \<Rightarrow> number" where
  "bookingsAboveFloor bookings quota tier = max (bookings - tierFloorAmount quota tier) 0"

definition tierRange :: "number \<Rightarrow> PlanTier \<Rightarrow> extnum" where
  "tierRange quota tier = ext_minus (tierCeilingAmount quota tier) (tierFloorAmount quota tier)"

definition tierBookings :: "number \<Rightarrow> number \<Rightarrow> PlanTier \<Rightarrow> number" where
  "tierBookings bookings quota tier =
     ext_min (bookingsAboveFloor bookings quota tier) (tierRange quota tier)"

text \<open>
  The label of a tier without a name. \<open>numToString\<close> stands for the conversion of a
  number to a string that the template literal applies; it is a parameter of the model.
\<close>

definition tierLabel :: "(number \<Rightarrow> string) \<Rightarrow> PlanTier \<Rightarrow> string" where
  "tierLabel numToString tier =
     numToString (tierFloor tier * 100) @ ''% - '' @
       (case tierCeiling tier of
          Infinity \<Rightarrow> ''Uncapped''
        | Fin c \<Rightarrow> numToString (c * 100) @ ''%'')"

text \<open>One iteration of the loop over the sorted tiers; the state is
  \<open>(totalCommission, breakdown)\<close>.\<close>

definition tierStep ::
  "(number \<Rightarrow> string) \<Rightarrow> number \<Rightarrow> number \<Rightarrow> PlanTier \<Rightarrow>
    number \<times> TierBreakdown list \<Rightarrow> number \<times> TierBreakdown list" where
  "tierStep numToString bookings quota tier st =
     (case st of (totalCommission, breakdown) \<Rightarrow>
        if tierBookings bookings quota tier > 0 then
          (totalCommission + tierBookings bookings quota tier * tierRate tier,
           breakdown @
             [\<lparr>tierName = orString (tier_Name tier) (tierLabel numToString tier),
               bookingsInTier = tierBookings bookings quota tier,
               rateApplied = tierRate tier,
               commissionAmount = tierBookings bookings quota tier * tierRate tier\<rparr>])
        else (totalCommission, breakdown))"

definition calculateTieredCommission ::
  "(number \<Rightarrow> string) \<Rightarrow> number \<Rightarrow> number \<Rightarrow> PlanTier list \<Rightarrow> CommissionCalculation" where
  "calculateTieredCommission numToString bookings quota tiers =
     (if quota \<le> 0 then
        \<lparr>grossCommission = 0, tierBreakdown = [], attainmentPercent = 0\<rparr>
      else
        (case fold (tierStep numToString bookings quota) (array_sort floorCmp tiers) (0, []) of
           (totalCommission, breakdown) \<Rightarrow>
             \<lparr>grossCommission = totalCommission,
               tierBreakdown = breakdown,
               attainmentPercent = (bookings / quota) * 100\<rparr>))"

section \<open>calculateDealByDealCommission\<close>

text \<open>
  The comparator \<^verbatim>\<open>(a, b) => new Date(a.CloseDate).getTime() - new Date(b.CloseDate).getTime()\<close>.
  \<open>getTime\<close> stands for \<^verbatim>\<open>new Date(s).getTime()\<close>, the time value of a date string,
  and is a parameter of the model; close dates are valid dates, so it is a finite number.
\<close>

definition closeDateCmp ::
  "(string \<Rightarrow> number) \<Rightarrow> SalesforceOpportunity \<Rightarrow> SalesforceOpportunity \<Rightarrow> number" where
  "closeDateCmp getTime a b = getTime (CloseDate a) - getTime (CloseDate b)"

text \<open>
  \<^verbatim>\<open>findTierForAttainment\<close>: the loop over the tiers, with the local
  \<open>applicableTier\<close> as an argument; \<open>att\<close> is the parameter \<^verbatim>\<open>attainmentPercent\<close>.
  The first branch is the \<^verbatim>\<open>break\<close>.
\<close>

fun findTierLoop :: "number \<Rightarrow> PlanTier option \<Rightarrow> PlanTier list \<Rightarrow> PlanTier option" where
  "findTierLoop att applicableTier [] = applicableTier"
| "findTierLoop att applicableTier (tier # rest) =
     (if att \<ge> orZero (Attainment_Floor__c tier) \<and>
         ext_less att (orInfinity (Attainment_Ceiling__c tier))
      then Some tier
      else if att \<ge> orZero (Attainment_Floor__c tier)
      then findTierLoop att (Some tier) rest
      else findTierLoop att applicableTier rest)"

definition findTierForAttainment :: "number \<Rightarrow> PlanTier list \<Rightarrow> PlanTier option" where
  "findTierForAttainment att tiers = findTierLoop att None tiers"

text \<open>One iteration of the loop over the sorted deals; the state is
  \<open>(runningBookings, dealCommissions)\<close>.\<close>

definition dealStep ::
  "number \<Rightarrow> PlanTier list \<Rightarrow> SalesforceOpportunity \<Rightarrow>
    number \<times> DealCommission list \<Rightarrow> number \<times> DealCommission list" where
  "dealStep quota sortedTiers deal st =
     (case st of (running, dealCommissions) \<Rightarrow>
        let amount = orZero (Amount deal);
            running' = running + amount;
            attainment = (running' / quota) * 100;
            applicableTier = findTierForAttainment attainment sortedTiers;
            rate = (case applicableTier of
                      Some tier \<Rightarrow> orZero (Commission_Rate__c tier) / 100
                    | None \<Rightarrow> 0)
        in (running',
            dealCommissions @
              [\<lparr>opportunityId = opp_Id deal,
                opportunityName = opp_Name deal,
                dealAmount = amount,
                commissionRate = rate,
                commissionAmount = amount * rate,
                tierApplied =
                  orString (case applicableTier of Some tier \<Rightarrow> tier_Name tier | None \<Rightarrow> [])
                    ''Base'',
                attainmentAtDeal = attainment,
                runningBookings = running'\<rparr>]))"

definition calculateDealByDealCommission ::
  "(string \<Rightarrow> number) \<Rightarrow> SalesforceOpportunity list \<Rightarrow> number \<Rightarrow> PlanTier list \<Rightarrow>
    DealCommission list" where
  "calculateDealByDealCommission getTime deals quota tiers =
     (if quota \<le> 0 \<or> length deals = 0 then []
      else
        snd (fold (dealStep quota (array_sort floorCmp tiers))
               (array_sort (closeDateCmp getTime) deals) (0, [])))"

section \<open>The caller's arrays\<close>

text \<open>
  The two functions above take their arrays by value. The source receives references
  to arrays that the caller keeps, and \<^verbatim>\<open>Array.prototype.sort\<close> sorts the array it is
  called on in place. To say what a call does to the caller's arrays, the functions are
  modelled once more over a store of arrays: a reference is an index into the store,
  \<^verbatim>\<open>[...a]\<close> allocates a new array with the elements of \<open>a\<close>, and \<^verbatim>\<open>a.sort(cmp)\<close>
  overwrites the array at \<open>a\<close>. A reference that the caller holds denotes an array of
  the store. The elements are records, which the source only reads.
\<close>

type_synonym ref = nat

record store =
  tierArrays :: "PlanTier list list"
  dealArrays :: "SalesforceOpportunity list list"

text \<open>\<^verbatim>\<open>[...a]\<close>: the reference of the copy, and the arrays with the copy.\<close>

definition spread :: "ref \<Rightarrow> 'a list list \<Rightarrow> ref \<times> 'a list list" where
  "spread a arrays = (length arrays, arrays @ [arrays ! a])"

text \<open>\<^verbatim>\<open>a.sort(cmp)\<close>: the array at \<open>a\<close> is replaced by its sorted contents; the call
  returns \<open>a\<close> itself.\<close>

definition sort_in_place :: "('a \<Rightarrow> 'a \<Rightarrow> number) \<Rightarrow> ref \<Rightarrow> 'a list list \<Rightarrow> 'a list list" where
  "sort_in_place cmp a arrays = arrays[a := array_sort cmp (arrays ! a)]"

definition calculateTieredCommission_store ::
  "(number \<Rightarrow> string) \<Rightarrow> number \<Rightarrow> number \<Rightarrow> ref \<Rightarrow> store \<Rightarrow> CommissionCalculation \<times> store" where
  "calculateTieredCommission_store numToString bookings quota tiers s =
     (if quota \<le> 0 then
        (\<lparr>grossCommission = 0, tierBreakdown = [], attainmentPercent = 0\<rparr>, s)
      else
        (case spread tiers (tierArrays s) of
           (sortedTiers, arrays) \<Rightarrow>
             let arrays' = sort_in_place floorCmp sortedTiers arrays in
             (case fold (tierStep numToString bookings quota) (arrays' ! sortedTiers) (0, []) of
                (totalCommission, breakdown) \<Rightarrow>
                  (\<lparr>grossCommission = totalCommission,
                    tierBreakdown = breakdown,
                    attainmentPercent = (bookings / quota) * 100\<rparr>,
                   s\<lparr>tierArrays := arrays'\<rparr>))))"

definition calculateDealByDealCommission_store ::
  "(string \<Rightarrow> number) \<Rightarrow> ref \<Rightarrow> number \<Rightarrow> ref \<Rightarrow> store \<Rightarrow> DealCommission list \<times> store" where
  "calculateDealByDealCommission_store getTime deals quota tiers s =
     (if quota \<le> 0 \<or> length (dealArrays s ! deals) = 0 then ([], s)
      else
        (case spread deals (dealArrays s) of
           (sortedDeals, dArrays) \<Rightarrow>
             let dArrays' = sort_in_place (closeDateCmp getTime) sortedDeals dArrays in
             (case spread tiers (tierArrays s) of
                (sortedTiers, tArrays) \<Rightarrow>
                  let tArrays' = sort_in_place floorCmp sortedTiers tArrays in
                  (snd (fold (dealStep quota (tArrays' ! sortedTiers))
                          (dArrays' ! sortedDeals) (0, [])),
                   s\<lparr>tierArrays := tArrays', dealArrays := dArrays'\<rparr>))))"

section \<open>Predicates on tiers\<close>

text \<open>The condition under which the loop of \<^verbatim>\<open>findTierForAttainment\<close> takes a tier and
  stops: \<^verbatim>\<open>attainmentPercent >= floor && attainmentPercent < ceiling\<close>, with the two
  locals as the loop computes them.\<close>

definition tierContains :: "PlanTier \<Rightarrow> number \<Rightarrow> bool" where
  "tierContains tier att =
     (att \<ge> orZero (Attainment_Floor__c tier) \<and>
      ext_less att (orInfinity (Attainment_Ceiling__c tier)))"

text \<open>The half-open range \<open>[floor, ceiling)\<close> in the words of the specification: a
  missing ceiling is unbounded, and a ceiling that is present is the bound, whatever
  its value.\<close>

definition inHalfOpenRange :: "PlanTier \<Rightarrow> number \<Rightarrow> bool" where
  "inHalfOpenRange tier att =
     (att \<ge> orZero (Attainment_Floor__c tier) \<and>
      (case Attainment_Ceiling__c tier of None \<Rightarrow> True | Some c \<Rightarrow> att < c))"

text \<open>A tier whose ceiling is present and 0, with the ceiling removed.\<close>

definition zeroAsUncapped :: "PlanTier \<Rightarrow> PlanTier" where
  "zeroAsUncapped tier =
     (if Attainment_Ceiling__c tier = Some 0 then tier\<lparr>Attainment_Ceiling__c := None\<rparr>
      else tier)"

section \<open>Example inputs\<close>

text \<open>The schedule of the worked example: 0-100% at 10%, 100-125% at 15%, 125%+ at 20%.\<close>

definition baseTier :: PlanTier where
  "baseTier = \<lparr>tier_Id = ''T1'', tier_Name = ''Base Rate'', Comp_Plan__c = ''P1'',
     Attainment_Floor__c = Some 0, Attainment_Ceiling__c = Some 100,
     Commission_Rate__c = Some 10, Order__c = Some 1\<rparr>"

definition acceleratorTier :: PlanTier where
  "acceleratorTier = \<lparr>tier_Id = ''T2'', tier_Name = ''Accelerator'', Comp_Plan__c = ''P1'',
     Attainment_Floor__c = Some 100, Attainment_Ceiling__c = Some 125,
     Commission_Rate__c = Some 15, Order__c = Some 2\<rparr>"

definition superTier :: PlanTier where
  "superTier = \<lparr>tier_Id = ''T3'', tier_Name = ''Super Accelerator'', Comp_Plan__c = ''P1'',
     Attainment_Floor__c = Some 125, Attainment_Ceiling__c = None,
     Commission_Rate__c = Some 20, Order__c = Some 3\<rparr>"

text \<open>A tier that starts at 50% and whose ceiling field is present and 0.\<close>

definition zeroCeilingTier :: PlanTier where
  "zeroCeilingTier = \<lparr>tier_Id = ''T4'', tier_Name = ''Zero Ceiling'', Comp_Plan__c = ''P1'',
     Attainment_Floor__c = Some 50, Attainment_Ceiling__c = Some 0,
     Commission_Rate__c = Some 5, Order__c = None\<rparr>"

text \<open>Three deals; the first to close is the last of the list, and the other two close
  on the same day. \<open>exampleTime\<close> gives the time values of the two dates
  (milliseconds since the epoch, UTC).\<close>

definition dealA :: SalesforceOpportunity where
  "dealA = \<lparr>opp_Id = ''A'', opp_Name = ''Acme'', Amount = Some 60000,
     StageName = ''Closed Won'', CloseDate = ''2024-02-01'', OwnerId = ''U1'',
     CreatedDate = ''2024-01-01''\<rparr>"

definition dealB :: SalesforceOpportunity where
  "dealB = \<lparr>opp_Id = ''B'', opp_Name = ''Blue'', Amount = None,
     StageName = ''Closed Won'', CloseDate = ''2024-02-01'', OwnerId = ''U1'',
     CreatedDate = ''2024-01-02''\<rparr>"

definition dealC :: SalesforceOpportunity where
  "dealC = \<lparr>opp_Id = ''C'', opp_Name = ''Coil'', Amount = Some 70000,
     StageName = ''Closed Won'', CloseDate = ''2024-01-15'', OwnerId = ''U1'',
     CreatedDate = ''2024-01-03''\<rparr>"

text \<open>Two tiers that both start at 100%: one whose ceiling is also 100, so that its
  range is empty, and one whose ceiling lies below its floor. A third tier overlaps the
  ranges around 100%.\<close>

definition emptyRangeTier :: PlanTier where
  "emptyRangeTier = \<lparr>tier_Id = ''T5'', tier_Name = ''Empty Range'', Comp_Plan__c = ''P1'',
     Attainment_Floor__c = Some 100, Attainment_Ceiling__c = Some 100,
     Commission_Rate__c = Some 10, Order__c = None\<rparr>"

definition invertedTier :: PlanTier where
  "invertedTier = \<lparr>tier_Id = ''T6'', tier_Name = ''Inverted'', Comp_Plan__c = ''P1'',
     Attainment_Floor__c = Some 100, Attainment_Ceiling__c = Some 50,
     Commission_Rate__c = Some 15, Order__c = None\<rparr>"

definition overlapTier :: PlanTier where
  "overlapTier = \<lparr>tier_Id = ''T7'', tier_Name = ''Overlap'', Comp_Plan__c = ''P1'',
     Attainment_Floor__c = Some 50, Attainment_Ceiling__c = Some 150,
     Commission_Rate__c = Some 12, Order__c = None\<rparr>"

text \<open>A deal whose amount is the quota of the examples.\<close>

definition quotaDeal :: SalesforceOpportunity where
  "quotaDeal = \<lparr>opp_Id = ''Q'', opp_Name = ''Quota'', Amount = Some 100000,
     StageName = ''Closed Won'', CloseDate = ''2024-01-15'', OwnerId = ''U1'',
     CreatedDate = ''2024-01-04''\<rparr>"

definition exampleTime :: "string \<Rightarrow> number" where
  "exampleTime s =
     (if s = ''2024-01-15'' then 1705276800000
      else if s = ''2024-02-01'' then 1706745600000
      else 0)"

definition exampleStore :: store where
  "exampleStore =
     \<lparr>tierArrays = [[superTier, baseTier, acceleratorTier]],
      dealArrays = [[dealA, dealB, dealC]]\<rparr>"

section \<open>Basic facts\<close>

lemma truthy_simps [simp]:
  "truthy None = False" "truthy (Some x) = (x \<noteq> 0)"
  by (simp_all add: truthy_def)

lemma orZero_simps [simp]:
  "orZero None = 0" "orZero (Some x) = x"
  by (simp_all add: orZero_def)

lemma orInfinity_simps [simp]:
  "orInfinity None = Infinity" "orInfinity (Some x) = (if x = 0 then Infinity else Fin x)"
  by (simp_all add: orInfinity_def)

text \<open>A comparator that is the difference of two keys sorts like the library's stable
  insertion sort on the key.\<close>

lemma insertBy_insort_key:
  assumes "\<And>a b. (cmp a b \<le> 0) = (key a \<le> key b)"
  shows "insertBy cmp x ys = insort_key key x ys"
  by (induction ys) (simp_all add: assms)

lemma array_sort_sort_key:
  assumes "\<And>a b. (cmp a b \<le> 0) = (key a \<le> key b)"
  shows "array_sort cmp xs = sort_key key xs"
proof -
  have "insertBy cmp = insort_key key"
    by (intro ext) (rule insertBy_insort_key [OF assms])
  then show ?thesis by (simp add: array_sort_def sort_key_def)
qed

lemma sortedTiers_sort_key:
  "array_sort floorCmp tiers = sort_key (\<lambda>t. orZero (Attainment_Floor__c t)) tiers"
  by (rule array_sort_sort_key) (simp add: floorCmp_def)

lemma sortedDeals_sort_key:
  "array_sort (closeDateCmp getTime) deals = sort_key (\<lambda>d. getTime (CloseDate d)) deals"
  by (rule array_sort_sort_key) (simp add: closeDateCmp_def)

lemmas tier_locals =
  tierBookings_def bookingsAboveFloor_def tierRange_def tierCeilingAmount_def
  tierFloorAmount_def tierCeiling_def tierFloor_def tierRate_def

lemmas example_inputs =
  baseTier_def acceleratorTier_def superTier_def zeroCeilingTier_def
  emptyRangeTier_def invertedTier_def overlapTier_def
  dealA_def dealB_def dealC_def quotaDeal_def exampleTime_def exampleStore_def

section \<open>The tier-matching rule\<close>

text \<open>When some tier contains the attainment, the loop returns a tier that contains
  it (the first one scanned).\<close>

lemma findTierLoop_first_containing:
  assumes "t \<in> set ts" and "tierContains t a"
  shows "\<exists>b\<in>set ts. tierContains b a \<and> findTierLoop a acc ts = Some b"
  using assms
proof (induction ts arbitrary: acc)
  case Nil
  then show ?case by simp
next
  case (Cons x xs)
  show ?case
  proof (cases "tierContains x a")
    case True
    then show ?thesis by (simp add: tierContains_def)
  next
    case False
    with Cons.prems have "t \<in> set xs" by auto
    from Cons.IH [OF this Cons.prems(2)] False show ?thesis
      by (auto simp: tierContains_def)
  qed
qed

text \<open>Without a containing tier, the loop ends with the last tier whose floor is not
  above the attainment.\<close>

lemma findTierLoop_no_exact:
  assumes "\<forall>t\<in>set ts. \<not> tierContains t a"
  shows "findTierLoop a acc ts =
    (if filter (\<lambda>t. orZero (Attainment_Floor__c t) \<le> a) ts = [] then acc
     else Some (last (filter (\<lambda>t. orZero (Attainment_Floor__c t) \<le> a) ts)))"
  using assms by (induction ts arbitrary: acc) (auto simp: tierContains_def)

lemma sorted_last_max:
  "sorted (map f xs) \<Longrightarrow> x \<in> set xs \<Longrightarrow> f x \<le> f (last xs)"
  by (induction xs) (auto split: if_splits)

lemma tentative_greatest:
  assumes ne: "filter (\<lambda>t. orZero (Attainment_Floor__c t) \<le> a) ts \<noteq> []"
    and srt: "sorted (map (\<lambda>t. orZero (Attainment_Floor__c t)) ts)"
  shows "last (filter (\<lambda>t. orZero (Attainment_Floor__c t) \<le> a) ts) \<in> set ts \<and>
         orZero (Attainment_Floor__c
           (last (filter (\<lambda>t. orZero (Attainment_Floor__c t) \<le> a) ts))) \<le> a \<and>
         (\<forall>t\<in>set ts. orZero (Attainment_Floor__c t) \<le> a \<longrightarrow>
            orZero (Attainment_Floor__c t)
              \<le> orZero (Attainment_Floor__c
                   (last (filter (\<lambda>t. orZero (Attainment_Floor__c t) \<le> a) ts))))"
proof -
  let ?f = "\<lambda>t. orZero (Attainment_Floor__c t)"
  let ?xs = "filter (\<lambda>t. ?f t \<le> a) ts"
  have mem: "last ?xs \<in> set ?xs" using ne by (rule last_in_set)
  have "sorted (map ?f ?xs)" using srt by (rule sorted_filter)
  then have "\<forall>t\<in>set ?xs. ?f t \<le> ?f (last ?xs)"
    using sorted_last_max [of ?f ?xs] by blast
  with mem show ?thesis by auto
qed

text \<open>Replacing ceilings of 0 by missing ceilings commutes with the loop.\<close>

lemma zeroAsUncapped_fields [simp]:
  "orZero (Attainment_Floor__c (zeroAsUncapped t)) = orZero (Attainment_Floor__c t)"
  "orInfinity (Attainment_Ceiling__c (zeroAsUncapped t)) = orInfinity (Attainment_Ceiling__c t)"
  by (simp_all add: zeroAsUncapped_def)

lemma findTierLoop_zeroAsUncapped:
  "findTierLoop a (map_option zeroAsUncapped acc) (map zeroAsUncapped ts) =
     map_option zeroAsUncapped (findTierLoop a acc ts)"
proof (induction ts arbitrary: acc)
  case Nil
  show ?case by simp
next
  case (Cons t ts)
  from Cons.IH [of "Some t"] Cons.IH [of acc] show ?case by simp
qed

section \<open>The loop over the deals\<close>

text \<open>Each iteration adds the deal's amount to the running total and appends one
  record, whose rate and tier name come from the tier found for its attainment.\<close>

lemma dealStep_record:
  "\<exists>r. dealStep q ts d (run, acc) = (run + orZero (Amount d), acc @ [r]) \<and>
       (opportunityId r, opportunityName r, dealAmount r) =
         (opp_Id d, opp_Name d, orZero (Amount d)) \<and>
       runningBookings r = run + orZero (Amount d) \<and>
       commissionRate r =
         (case findTierForAttainment (attainmentAtDeal r) ts of
            Some tier \<Rightarrow> orZero (Commission_Rate__c tier) / 100 | None \<Rightarrow> 0) \<and>
       tierApplied r =
         orString (case findTierForAttainment (attainmentAtDeal r) ts of
                     Some tier \<Rightarrow> tier_Name tier | None \<Rightarrow> []) ''Base''"
  by (simp add: dealStep_def Let_def)

lemma fold_dealStep_inv:
  assumes step: "\<And>d run acc. \<exists>r. dealStep q ts d (run, acc) = (run + orZero (Amount d), acc @ [r]) \<and> P r"
    and acc: "\<forall>r\<in>set acc. P r"
  shows "\<forall>r\<in>set (snd (fold (dealStep q ts) ds (run, acc))). P r"
  using acc
proof (induction ds arbitrary: run acc)
  case Nil
  then show ?case by simp
next
  case (Cons d ds)
  from step [of d run acc] obtain r
    where r: "dealStep q ts d (run, acc) = (run + orZero (Amount d), acc @ [r])" "P r"
    by blast
  have "\<forall>x\<in>set (acc @ [r]). P x" using Cons.prems r(2) by simp
  from Cons.IH [OF this] show ?case by (simp add: r(1))
qed

lemma fold_dealStep_fields:
  "map (\<lambda>r. (opportunityId r, opportunityName r, dealAmount r))
       (snd (fold (dealStep q ts) ds (run, acc))) =
     map (\<lambda>r. (opportunityId r, opportunityName r, dealAmount r)) acc @
     map (\<lambda>d. (opp_Id d, opp_Name d, orZero (Amount d))) ds"
  by (induction ds arbitrary: run acc) (simp_all add: dealStep_def Let_def)

lemma fold_dealStep_running:
  assumes "\<forall>d\<in>set ds. 0 \<le> orZero (Amount d)"
    and "sorted (map runningBookings acc)"
    and "\<forall>r\<in>set acc. runningBookings r \<le> run"
  shows "sorted (map runningBookings (snd (fold (dealStep q ts) ds (run, acc))))"
  using assms
proof (induction ds arbitrary: run acc)
  case Nil
  then show ?case by simp
next
  case (Cons d ds)
  let ?run = "run + orZero (Amount d)"
  from dealStep_record [of q ts d run acc] obtain r
    where step: "dealStep q ts d (run, acc) = (?run, acc @ [r])"
      and r: "runningBookings r = ?run"
    by blast
  have le: "run \<le> ?run" using Cons.prems(1) by simp
  have a: "sorted (map runningBookings (acc @ [r]))"
    using Cons.prems(2,3) le r by (auto simp: sorted_append)
  have b: "\<forall>x\<in>set (acc @ [r]). runningBookings x \<le> ?run"
    using Cons.prems(3) le r by auto
  have c: "\<forall>d\<in>set ds. 0 \<le> orZero (Amount d)" using Cons.prems(1) by simp
  have "sorted (map runningBookings (snd (fold (dealStep q ts) ds (?run, acc @ [r]))))"
    by (rule Cons.IH [OF c a b])
  then show ?case by (simp add: step)
qed

text \<open>For a positive quota the early return agrees with the loop on an empty list.\<close>

lemma calculateDealByDealCommission_loop:
  assumes "0 < quota"
  shows "calculateDealByDealCommission getTime deals quota tiers =
     snd (fold (dealStep quota (array_sort floorCmp tiers))
            (array_sort (closeDateCmp getTime) deals) (0, []))"
proof (cases "deals = []")
  case True
  then show ?thesis by (simp add: calculateDealByDealCommission_def array_sort_def)
next
  case False
  with assms show ?thesis by (simp add: calculateDealByDealCommission_def)
qed

text \<open>Every emitted record carries the rate and the name of the tier that the rule
  finds, on the sorted tiers, for the record's attainment.\<close>

lemma deal_records_follow_rule:
  "\<forall>r\<in>set (calculateDealByDealCommission getTime deals quota tiers).
      commissionRate r =
         (case findTierForAttainment (attainmentAtDeal r) (array_sort floorCmp tiers) of
            Some tier \<Rightarrow> orZero (Commission_Rate__c tier) / 100 | None \<Rightarrow> 0) \<and>
      tierApplied r =
         orString (case findTierForAttainment (attainmentAtDeal r) (array_sort floorCmp tiers) of
                     Some tier \<Rightarrow> tier_Name tier | None \<Rightarrow> []) ''Base''"
proof (cases "quota \<le> 0 \<or> length deals = 0")
  case True
  then show ?thesis by (simp add: calculateDealByDealCommission_def)
next
  case False
  let ?st = "array_sort floorCmp tiers"
  have "\<forall>r\<in>set (snd (fold (dealStep quota ?st) (array_sort (closeDateCmp getTime) deals) (0, []))).
      commissionRate r =
         (case findTierForAttainment (attainmentAtDeal r) ?st of
            Some tier \<Rightarrow> orZero (Commission_Rate__c tier) / 100 | None \<Rightarrow> 0) \<and>
      tierApplied r =
         orString (case findTierForAttainment (attainmentAtDeal r) ?st of
                     Some tier \<Rightarrow> tier_Name tier | None \<Rightarrow> []) ''Base''"
  proof (rule fold_dealStep_inv)
    fix d run acc
    from dealStep_record [of quota ?st d run acc]
    show "\<exists>r. dealStep quota ?st d (run, acc) = (run + orZero (Amount d), acc @ [r]) \<and>
        (commissionRate r =
         (case findTierForAttainment (attainmentAtDeal r) ?st of
            Some tier \<Rightarrow> orZero (Commission_Rate__c tier) / 100 | None \<Rightarrow> 0) \<and>
        tierApplied r =
         orString (case findTierForAttainment (attainmentAtDeal r) ?st of
                     Some tier \<Rightarrow> tier_Name tier | None \<Rightarrow> []) ''Base'')"
      by blast
  qed simp
  with False show ?thesis by (simp add: calculateDealByDealCommission_def)
qed

section \<open>The store\<close>

lemma tiered_store_eq:
  assumes "tiers < length (tierArrays s)"
  shows "fst (calculateTieredCommission_store numToString bookings quota tiers s) =
           calculateTieredCommission numToString bookings quota (tierArrays s ! tiers)"
    and "take (length (tierArrays s))
           (tierArrays (snd (calculateTieredCommission_store numToString bookings quota tiers s))) =
           tierArrays s"
    and "dealArrays (snd (calculateTieredCommission_store numToString bookings quota tiers s)) =
           dealArrays s"
  using assms
  by (simp_all add: calculateTieredCommission_store_def calculateTieredCommission_def
      spread_def sort_in_place_def Let_def split: prod.split)

lemma deal_store_eq:
  assumes "tiers < length (tierArrays s)" and "deals < length (dealArrays s)"
  shows "fst (calculateDealByDealCommission_store getTime deals quota tiers s) =
           calculateDealByDealCommission getTime (dealArrays s ! deals) quota
             (tierArrays s ! tiers)"
    and "take (length (tierArrays s))
           (tierArrays (snd (calculateDealByDealCommission_store getTime deals quota tiers s))) =
           tierArrays s"
    and "take (length (dealArrays s))
           (dealArrays (snd (calculateDealByDealCommission_store getTime deals quota tiers s))) =
           dealArrays s"
  using assms
  by (simp_all add: calculateDealByDealCommission_store_def calculateDealByDealCommission_def
      spread_def sort_in_place_def Let_def split: prod.split)

lemma nth_of_take:
  "take (length ys) xs = ys \<Longrightarrow> i < length ys \<Longrightarrow> xs ! i = ys ! i"
  by (metis nth_take)

section \<open>The aggregate calculator\<close>

text \<open>
  Claim C1. For bookings 150000, quota 100000 and the three tiers 0-100% at 10%,
  100-125% at 15% and 125%+ (no ceiling) at 20%, whatever their identifiers and names,
  \<open>calculateTieredCommission\<close> returns an attainment of 150, a breakdown of three
  entries in ascending-floor order, with bookings 100000, 25000 and 25000 and
  commissions 10000, 3750 and 5000, and a gross commission of 18750.
\<close>

theorem C1_worked_example:
  "attainmentPercent
     (calculateTieredCommission numToString 150000 100000
        [\<lparr>tier_Id = i1, tier_Name = n1, Comp_Plan__c = p1, Attainment_Floor__c = Some 0,
          Attainment_Ceiling__c = Some 100, Commission_Rate__c = Some 10, Order__c = o1\<rparr>,
         \<lparr>tier_Id = i2, tier_Name = n2, Comp_Plan__c = p2, Attainment_Floor__c = Some 100,
          Attainment_Ceiling__c = Some 125, Commission_Rate__c = Some 15, Order__c = o2\<rparr>,
         \<lparr>tier_Id = i3, tier_Name = n3, Comp_Plan__c = p3, Attainment_Floor__c = Some 125,
          Attainment_Ceiling__c = None, Commission_Rate__c = Some 20, Order__c = o3\<rparr>]) = 150 \<and>
   map (\<lambda>e. (bookingsInTier e, TierBreakdown.commissionAmount e))
     (tierBreakdown
       (calculateTieredCommission numToString 150000 100000
        [\<lparr>tier_Id = i1, tier_Name = n1, Comp_Plan__c = p1, Attainment_Floor__c = Some 0,
          Attainment_Ceiling__c = Some 100, Commission_Rate__c = Some 10, Order__c = o1\<rparr>,
         \<lparr>tier_Id = i2, tier_Name = n2, Comp_Plan__c = p2, Attainment_Floor__c = Some 100,
          Attainment_Ceiling__c = Some 125, Commission_Rate__c = Some 15, Order__c = o2\<rparr>,
         \<lparr>tier_Id = i3, tier_Name = n3, Comp_Plan__c = p3, Attainment_Floor__c = Some 125,
          Attainment_Ceiling__c = None, Commission_Rate__c = Some 20, Order__c = o3\<rparr>])) =
     [(100000, 10000), (25000, 3750), (25000, 5000)] \<and>
   grossCommission
     (calculateTieredCommission numToString 150000 100000
        [\<lparr>tier_Id = i1, tier_Name = n1, Comp_Plan__c = p1, Attainment_Floor__c = Some 0,
          Attainment_Ceiling__c = Some 100, Commission_Rate__c = Some 10, Order__c = o1\<rparr>,
         \<lparr>tier_Id = i2, tier_Name = n2, Comp_Plan__c = p2, Attainment_Floor__c = Some 100,
          Attainment_Ceiling__c = Some 125, Commission_Rate__c = Some 15, Order__c = o2\<rparr>,
         \<lparr>tier_Id = i3, tier_Name = n3, Comp_Plan__c = p3, Attainment_Floor__c = Some 125,
          Attainment_Ceiling__c = None, Commission_Rate__c = Some 20, Order__c = o3\<rparr>]) = 18750"
  by (simp add: calculateTieredCommission_def array_sort_def floorCmp_def tierStep_def
      tier_locals)

text \<open>
  Claim C4. For a quota that is 0 or negative, whatever the bookings, the tiers and the
  deals (the deal list may be non-empty), \<open>calculateTieredCommission\<close> returns exactly
  a gross commission of 0, an empty breakdown and an attainment of 0, and
  \<open>calculateDealByDealCommission\<close> returns the empty list. Both results come from the
  first branch of the function, before any quotient by the quota is formed, and neither
  function has an error result.
\<close>

theorem C4_nonpositive_quota:
  "quota \<le> 0 \<Longrightarrow>
     calculateTieredCommission numToString bookings quota tiers =
       \<lparr>grossCommission = 0, tierBreakdown = [], attainmentPercent = 0\<rparr> \<and>
     calculateDealByDealCommission getTime deals quota tiers = []"
  by (simp add: calculateTieredCommission_def calculateDealByDealCommission_def)

theorem C4_nonpositive_quota_witness:
  "(-5 :: number) \<le> 0 \<and>
   calculateTieredCommission (\<lambda>x. []) 150000 (-5) [baseTier, acceleratorTier, superTier] =
       \<lparr>grossCommission = 0, tierBreakdown = [], attainmentPercent = 0\<rparr> \<and>
   calculateDealByDealCommission exampleTime [dealA, dealB, dealC] (-5)
       [baseTier, acceleratorTier, superTier] = []"
  using C4_nonpositive_quota [of "-5" "\<lambda>x. []" 150000 "[baseTier, acceleratorTier, superTier]"
      exampleTime "[dealA, dealB, dealC]"]
  by simp

text \<open>
  Claim C5, as the code has it. The ceiling amount of a tier is \<open>(ceiling / 100) * quota\<close>
  when the ceiling field is present and not 0; it is \<open>Infinity\<close> when the field is
  missing and also when it is present and 0, since the source tests the field for
  truthiness.
\<close>

theorem C5_ceiling_amount:
  "tierCeilingAmount quota tier =
     (case Attainment_Ceiling__c tier of
        None \<Rightarrow> Infinity
      | Some c \<Rightarrow> if c = 0 then Infinity else Fin ((c / 100) * quota))"
  by (simp add: tierCeilingAmount_def tierCeiling_def split: option.split)

text \<open>
  The claim as stated (a ceiling that is present gives \<open>(ceiling / 100) * quota\<close>, and
  \<open>Infinity\<close> arises only from a missing ceiling) fails for the tier \<open>zeroCeilingTier\<close>,
  whose ceiling is present and 0: with quota 100000 its ceiling amount is \<open>Infinity\<close>,
  not 0, and with bookings 80000 the calculator puts the 30000 above the tier's floor
  into the tier.
\<close>

theorem C5_zero_ceiling_counterexample:
  "Attainment_Ceiling__c zeroCeilingTier = Some 0 \<and>
   tierCeilingAmount 100000 zeroCeilingTier = Infinity \<and>
   tierCeilingAmount 100000 zeroCeilingTier \<noteq> Fin ((0 / 100) * 100000) \<and>
   map bookingsInTier
     (tierBreakdown (calculateTieredCommission (\<lambda>x. []) 80000 100000 [zeroCeilingTier])) =
     [30000]"
  by (simp add: calculateTieredCommission_def array_sort_def tierStep_def tier_locals
      zeroCeilingTier_def)

text \<open>
  Claim C6, as the code has it. For bookings \<open>B \<ge> 0\<close>, a quota \<open>Q > 0\<close> and the single
  tier with floor 0, no ceiling and rate \<open>R\<close>, \<open>calculateTieredCommission\<close> returns the
  attainment \<open>(B / Q) * 100\<close>. When \<open>B > 0\<close> the breakdown has exactly one entry, with
  the bookings \<open>B\<close>, the rate \<open>R / 100\<close> and the commission \<open>B * (R / 100)\<close>, and the
  gross commission is this product; when \<open>B = 0\<close> the breakdown is empty and the gross
  commission is 0, since an entry is appended only for a tier with strictly positive
  bookings. The product is written as the source forms it, the bookings times the
  fraction \<open>R / 100\<close>: in the exact arithmetic of this model it equals \<open>B * R / 100\<close>,
  while in double precision the two can differ by a rounding error.
\<close>

theorem C6_single_flat_tier:
  "0 \<le> B \<Longrightarrow> 0 < Q \<Longrightarrow>
   grossCommission (calculateTieredCommission numToString B Q
      [\<lparr>tier_Id = i, tier_Name = n, Comp_Plan__c = p, Attainment_Floor__c = Some 0,
        Attainment_Ceiling__c = None, Commission_Rate__c = Some R, Order__c = ord\<rparr>]) =
     (if 0 < B then B * (R / 100) else 0) \<and>
   attainmentPercent (calculateTieredCommission numToString B Q
      [\<lparr>tier_Id = i, tier_Name = n, Comp_Plan__c = p, Attainment_Floor__c = Some 0,
        Attainment_Ceiling__c = None, Commission_Rate__c = Some R, Order__c = ord\<rparr>]) =
     (B / Q) * 100 \<and>
   map (\<lambda>e. (bookingsInTier e, rateApplied e, TierBreakdown.commissionAmount e))
     (tierBreakdown (calculateTieredCommission numToString B Q
      [\<lparr>tier_Id = i, tier_Name = n, Comp_Plan__c = p, Attainment_Floor__c = Some 0,
        Attainment_Ceiling__c = None, Commission_Rate__c = Some R, Order__c = ord\<rparr>])) =
     (if 0 < B then [(B, R / 100, B * (R / 100))] else [])"
  by (simp add: calculateTieredCommission_def array_sort_def tierStep_def tier_locals)

theorem C6_single_flat_tier_witness:
  "(0::number) \<le> 150000 \<and> (0::number) < 100000 \<and>
   grossCommission (calculateTieredCommission (\<lambda>x. []) 150000 100000
      [\<lparr>tier_Id = ''T'', tier_Name = ''Flat'', Comp_Plan__c = ''P'',
        Attainment_Floor__c = Some 0, Attainment_Ceiling__c = None,
        Commission_Rate__c = Some 10, Order__c = None\<rparr>]) = 150000 * (10 / 100) \<and>
   attainmentPercent (calculateTieredCommission (\<lambda>x. []) 150000 100000
      [\<lparr>tier_Id = ''T'', tier_Name = ''Flat'', Comp_Plan__c = ''P'',
        Attainment_Floor__c = Some 0, Attainment_Ceiling__c = None,
        Commission_Rate__c = Some 10, Order__c = None\<rparr>]) = 150 \<and>
   map (\<lambda>e. (bookingsInTier e, rateApplied e, TierBreakdown.commissionAmount e))
     (tierBreakdown (calculateTieredCommission (\<lambda>x. []) 150000 100000
      [\<lparr>tier_Id = ''T'', tier_Name = ''Flat'', Comp_Plan__c = ''P'',
        Attainment_Floor__c = Some 0, Attainment_Ceiling__c = None,
        Commission_Rate__c = Some 10, Order__c = None\<rparr>])) =
     [(150000, 10 / 100, 150000 * (10 / 100))]"
  using C6_single_flat_tier [of 150000 100000 "\<lambda>x. []" "''T''" "''Flat''" "''P''" 10 None]
  by simp

text \<open>
  The claim as stated promises exactly one breakdown entry for every \<open>B \<ge> 0\<close>; for
  \<open>B = 0\<close> (quota 100000, rate 10) the breakdown is empty.
\<close>

theorem C6_zero_bookings_counterexample:
  "tierBreakdown (calculateTieredCommission (\<lambda>x. []) 0 100000
      [\<lparr>tier_Id = ''T'', tier_Name = ''Flat'', Comp_Plan__c = ''P'',
        Attainment_Floor__c = Some 0, Attainment_Ceiling__c = None,
        Commission_Rate__c = Some 10, Order__c = None\<rparr>]) = []"
  by (simp add: calculateTieredCommission_def array_sort_def tierStep_def tier_locals)

section \<open>The tier-matching rule of deal attribution\<close>

text \<open>
  Claim C2, as the code has it. Let tier A have the ceiling 100 and tier B the floor
  100, and let the attainment be exactly 100. Tier A does not contain 100: its range
  excludes the ceiling. Scanning A and then B, the rule selects B. When B contains 100
  (its ceiling is missing, 0 or above 100), the rule selects B on the two tiers sorted
  by floor, in whichever order they are given. More generally, in every schedule that
  has B, where B contains 100 and is the only tier that does, the rule on the sorted
  schedule selects B, and every deal record whose attainment is 100 carries the rate
  and the name of B.
\<close>

theorem C2_boundary:
  assumes "Attainment_Ceiling__c A = Some 100" and "Attainment_Floor__c B = Some 100"
  shows "\<not> tierContains A 100 \<and>
    findTierForAttainment 100 [A, B] = Some B \<and>
    (tierContains B 100 \<longrightarrow>
       findTierForAttainment 100 (array_sort floorCmp [A, B]) = Some B \<and>
       findTierForAttainment 100 (array_sort floorCmp [B, A]) = Some B) \<and>
    (B \<in> set tiers \<and> tierContains B 100 \<and> (\<forall>t\<in>set tiers. tierContains t 100 \<longrightarrow> t = B) \<longrightarrow>
       findTierForAttainment 100 (array_sort floorCmp tiers) = Some B \<and>
       (\<forall>r\<in>set (calculateDealByDealCommission getTime deals quota tiers).
          attainmentAtDeal r = 100 \<longrightarrow>
            commissionRate r = orZero (Commission_Rate__c B) / 100 \<and>
            tierApplied r = orString (tier_Name B) ''Base''))"
proof -
  have nA: "\<not> tierContains A 100"
    using assms(1) by (simp add: tierContains_def)
  have two: "findTierForAttainment 100 [A, B] = Some B"
    using assms by (simp add: findTierForAttainment_def)
  have sel: "findTierForAttainment 100 (array_sort floorCmp ts) = Some B"
    if B: "B \<in> set ts" "tierContains B 100"
      and only: "\<forall>t\<in>set ts. tierContains t 100 \<longrightarrow> t = B" for ts
  proof -
    have set_st: "set (array_sort floorCmp ts) = set ts"
      by (simp add: sortedTiers_sort_key)
    from B set_st have "B \<in> set (array_sort floorCmp ts)" by simp
    from findTierLoop_first_containing [OF this B(2), of None]
    obtain b where "b \<in> set ts" "tierContains b 100"
      "findTierLoop 100 None (array_sort floorCmp ts) = Some b"
      using set_st by auto
    with only show ?thesis by (auto simp: findTierForAttainment_def)
  qed
  have pair: "findTierForAttainment 100 (array_sort floorCmp [A, B]) = Some B \<and>
       findTierForAttainment 100 (array_sort floorCmp [B, A]) = Some B"
    if "tierContains B 100"
    using sel [of "[A, B]"] sel [of "[B, A]"] that nA by auto
  have recs: "\<forall>r\<in>set (calculateDealByDealCommission getTime deals quota tiers).
          attainmentAtDeal r = 100 \<longrightarrow>
            commissionRate r = orZero (Commission_Rate__c B) / 100 \<and>
            tierApplied r = orString (tier_Name B) ''Base''"
    if "findTierForAttainment 100 (array_sort floorCmp tiers) = Some B"
    using deal_records_follow_rule [of getTime deals quota tiers] that by auto
  show ?thesis using nA two pair sel [of tiers] recs by blast
qed

theorem C2_boundary_witness:
  "Attainment_Ceiling__c baseTier = Some 100 \<and> Attainment_Floor__c acceleratorTier = Some 100 \<and>
   \<not> tierContains superTier 100 \<and> \<not> tierContains baseTier 100 \<and>
   tierContains acceleratorTier 100 \<and>
   findTierForAttainment 100 [baseTier, acceleratorTier] = Some acceleratorTier \<and>
   findTierForAttainment 100 (array_sort floorCmp [acceleratorTier, baseTier]) =
     Some acceleratorTier \<and>
   findTierForAttainment 100 (array_sort floorCmp [superTier, acceleratorTier, baseTier]) =
     Some acceleratorTier \<and>
   map (\<lambda>r. (attainmentAtDeal r, commissionRate r, tierApplied r))
     (calculateDealByDealCommission exampleTime [quotaDeal] 100000
        [superTier, acceleratorTier, baseTier]) = [(100, 15 / 100, ''Accelerator'')]"
proof -
  have a: "Attainment_Ceiling__c baseTier = Some 100" by (simp add: baseTier_def)
  have b: "Attainment_Floor__c acceleratorTier = Some 100" by (simp add: acceleratorTier_def)
  have c: "tierContains acceleratorTier 100" "\<not> tierContains superTier 100"
    "\<not> tierContains baseTier 100"
    by (simp_all add: tierContains_def example_inputs)
  have only: "\<forall>t\<in>set [superTier, acceleratorTier, baseTier].
      tierContains t 100 \<longrightarrow> t = acceleratorTier"
    using c by simp
  have recs: "map (\<lambda>r. (attainmentAtDeal r, commissionRate r, tierApplied r))
     (calculateDealByDealCommission exampleTime [quotaDeal] 100000
        [superTier, acceleratorTier, baseTier]) = [(100, 15 / 100, ''Accelerator'')]"
    by (simp add: calculateDealByDealCommission_def array_sort_def floorCmp_def dealStep_def
        findTierForAttainment_def orString_def example_inputs)
  from C2_boundary [OF a b, of "[superTier, acceleratorTier, baseTier]" exampleTime
      "[quotaDeal]" 100000] a b c only recs
  show ?thesis by simp
qed

text \<open>
  The claim as stated, for every pair of tiers and every schedule, fails on malformed
  schedules. Given in the order \<open>invertedTier\<close>, \<open>emptyRangeTier\<close>, two tiers of floor
  100 of which the second has the ceiling 100 and neither contains 100, the stable
  sort keeps the order, both tiers are tentative, and the rule selects the tier with
  the ceiling 100; a deal equal to the quota gets its rate. With the tier
  \<open>overlapTier\<close>, whose range 50 to 150 overlaps the boundary, next to \<open>baseTier\<close> and
  \<open>acceleratorTier\<close>, the rule selects the overlapping tier.
\<close>

theorem C2_malformed_schedule_counterexample:
  "Attainment_Ceiling__c emptyRangeTier = Some 100 \<and>
   Attainment_Floor__c invertedTier = Some 100 \<and>
   emptyRangeTier \<noteq> invertedTier \<and>
   findTierForAttainment 100 (array_sort floorCmp [invertedTier, emptyRangeTier]) =
     Some emptyRangeTier \<and>
   map (\<lambda>r. (attainmentAtDeal r, commissionRate r, tierApplied r))
     (calculateDealByDealCommission exampleTime [quotaDeal] 100000
        [invertedTier, emptyRangeTier]) = [(100, 10 / 100, ''Empty Range'')] \<and>
   Attainment_Ceiling__c baseTier = Some 100 \<and>
   Attainment_Floor__c acceleratorTier = Some 100 \<and>
   findTierForAttainment 100 (array_sort floorCmp [baseTier, acceleratorTier, overlapTier]) =
     Some overlapTier \<and>
   overlapTier \<noteq> acceleratorTier"
  by (simp add: calculateDealByDealCommission_def array_sort_def floorCmp_def dealStep_def
      findTierForAttainment_def orString_def example_inputs)

text \<open>
  Claim C3, as the code has it. Let no tier of the list contain the attainment, in the
  sense of the loop: a ceiling that is missing or 0 counts as unbounded. Then on the
  tiers sorted by floor the rule returns a tier of the list whose floor is at most the
  attainment and is the greatest such floor, and it returns none only when every floor
  is above the attainment. When every floor is above the attainment the rule returns
  none, and every record of \<open>calculateDealByDealCommission\<close> whose attainment is
  below every floor has the commission rate 0 and the tier name \<open>Base\<close>.
\<close>

theorem C3_fallback:
  "((\<forall>t\<in>set tiers. \<not> tierContains t a) \<longrightarrow>
      (case findTierForAttainment a (array_sort floorCmp tiers) of
         Some b \<Rightarrow>
           b \<in> set tiers \<and> orZero (Attainment_Floor__c b) \<le> a \<and>
           (\<forall>t\<in>set tiers. orZero (Attainment_Floor__c t) \<le> a \<longrightarrow>
              orZero (Attainment_Floor__c t) \<le> orZero (Attainment_Floor__c b))
       | None \<Rightarrow> \<forall>t\<in>set tiers. a < orZero (Attainment_Floor__c t))) \<and>
   ((\<forall>t\<in>set tiers. a < orZero (Attainment_Floor__c t)) \<longrightarrow>
      findTierForAttainment a (array_sort floorCmp tiers) = None) \<and>
   (\<forall>r\<in>set (calculateDealByDealCommission getTime deals quota tiers).
      (\<forall>t\<in>set tiers. attainmentAtDeal r < orZero (Attainment_Floor__c t)) \<longrightarrow>
        commissionRate r = 0 \<and> tierApplied r = ''Base'')"
proof -
  let ?f = "\<lambda>t. orZero (Attainment_Floor__c t)"
  let ?st = "array_sort floorCmp tiers"
  have st: "?st = sort_key ?f tiers" by (rule sortedTiers_sort_key)
  have set_st: "set ?st = set tiers" by (simp add: st)
  have srt: "sorted (map ?f ?st)" by (simp add: st)
  have none: "findTierForAttainment x ?st = None"
    if "\<forall>t\<in>set tiers. x < ?f t" for x
  proof -
    have "\<forall>t\<in>set ?st. \<not> tierContains t x"
      using that set_st by (auto simp: tierContains_def)
    moreover have "filter (\<lambda>t. ?f t \<le> x) ?st = []"
      using that set_st by (auto simp: filter_empty_conv)
    ultimately show ?thesis
      by (simp add: findTierForAttainment_def findTierLoop_no_exact)
  qed
  have part1: "case findTierForAttainment a ?st of
         Some b \<Rightarrow>
           b \<in> set tiers \<and> ?f b \<le> a \<and> (\<forall>t\<in>set tiers. ?f t \<le> a \<longrightarrow> ?f t \<le> ?f b)
       | None \<Rightarrow> \<forall>t\<in>set tiers. a < ?f t"
    if ne: "\<forall>t\<in>set tiers. \<not> tierContains t a"
  proof -
    have ne': "\<forall>t\<in>set ?st. \<not> tierContains t a"
      using ne set_st by simp
    show ?thesis
    proof (cases "filter (\<lambda>t. ?f t \<le> a) ?st = []")
      case True
      then have "\<forall>t\<in>set tiers. a < ?f t"
        using set_st by (auto simp: filter_empty_conv)
      moreover have "findTierForAttainment a ?st = None"
        using True by (simp add: findTierForAttainment_def findTierLoop_no_exact [OF ne'])
      ultimately show ?thesis by simp
    next
      case False
      have "findTierForAttainment a ?st = Some (last (filter (\<lambda>t. ?f t \<le> a) ?st))"
        using False by (simp add: findTierForAttainment_def findTierLoop_no_exact [OF ne'])
      moreover note tentative_greatest [OF False srt]
      ultimately show ?thesis using set_st by simp
    qed
  qed
  have part3: "\<forall>r\<in>set (calculateDealByDealCommission getTime deals quota tiers).
      (\<forall>t\<in>set tiers. attainmentAtDeal r < ?f t) \<longrightarrow>
        commissionRate r = 0 \<and> tierApplied r = ''Base''"
  proof (cases "quota \<le> 0 \<or> length deals = 0")
    case True
    then show ?thesis by (simp add: calculateDealByDealCommission_def)
  next
    case False
    have "\<forall>r\<in>set (snd (fold (dealStep quota ?st) (array_sort (closeDateCmp getTime) deals) (0, []))).
      commissionRate r =
         (case findTierForAttainment (attainmentAtDeal r) ?st of
            Some tier \<Rightarrow> orZero (Commission_Rate__c tier) / 100 | None \<Rightarrow> 0) \<and>
      tierApplied r =
         orString (case findTierForAttainment (attainmentAtDeal r) ?st of
                     Some tier \<Rightarrow> tier_Name tier | None \<Rightarrow> []) ''Base''"
    proof (rule fold_dealStep_inv)
      fix d run acc
      from dealStep_record [of quota ?st d run acc]
      show "\<exists>r. dealStep quota ?st d (run, acc) = (run + orZero (Amount d), acc @ [r]) \<and>
        (commissionRate r =
         (case findTierForAttainment (attainmentAtDeal r) ?st of
            Some tier \<Rightarrow> orZero (Commission_Rate__c tier) / 100 | None \<Rightarrow> 0) \<and>
        tierApplied r =
         orString (case findTierForAttainment (attainmentAtDeal r) ?st of
                     Some tier \<Rightarrow> tier_Name tier | None \<Rightarrow> []) ''Base'')"
        by blast
    qed simp
    then show ?thesis using False none
      by (simp add: calculateDealByDealCommission_def orString_def)
  qed
  show ?thesis using part1 none part3 by blast
qed

theorem C3_fallback_witness:
  "\<not> tierContains acceleratorTier 130 \<and> \<not> tierContains baseTier 130 \<and>
   findTierForAttainment 130 (array_sort floorCmp [acceleratorTier, baseTier]) = Some acceleratorTier \<and>
   50 < orZero (Attainment_Floor__c superTier) \<and>
   50 < orZero (Attainment_Floor__c acceleratorTier) \<and>
   findTierForAttainment 50 (array_sort floorCmp [superTier, acceleratorTier]) = None \<and>
   map (\<lambda>r. (attainmentAtDeal r, commissionRate r, tierApplied r))
     (calculateDealByDealCommission exampleTime [dealC] 100000 [superTier, acceleratorTier]) =
     [(70, 0, ''Base'')]"
  using C3_fallback [of "[acceleratorTier, baseTier]" 130 exampleTime "[dealC]" 100000]
    C3_fallback [of "[superTier, acceleratorTier]" 50 exampleTime "[dealC]" 100000]
  by (simp add: tierContains_def findTierForAttainment_def array_sort_def floorCmp_def
      calculateDealByDealCommission_def dealStep_def orString_def example_inputs)

text \<open>
  With the range \<open>[floor, ceiling)\<close> read from the fields as they are, the claim fails
  on the tiers \<open>baseTier\<close>, \<open>zeroCeilingTier\<close> and \<open>acceleratorTier\<close> at the attainment
  130: none of the three ranges holds 130, the greatest floor that is at most 130 is
  the 100 of \<open>acceleratorTier\<close>, and the rule returns \<open>zeroCeilingTier\<close>, whose floor
  is 50.
\<close>

theorem C3_zero_ceiling_counterexample:
  "\<not> inHalfOpenRange baseTier 130 \<and> \<not> inHalfOpenRange zeroCeilingTier 130 \<and>
   \<not> inHalfOpenRange acceleratorTier 130 \<and>
   findTierForAttainment 130 (array_sort floorCmp [baseTier, zeroCeilingTier, acceleratorTier]) =
     Some zeroCeilingTier \<and>
   orZero (Attainment_Floor__c zeroCeilingTier) < orZero (Attainment_Floor__c acceleratorTier) \<and>
   orZero (Attainment_Floor__c acceleratorTier) \<le> 130"
  by (simp add: inHalfOpenRange_def findTierForAttainment_def array_sort_def floorCmp_def
      example_inputs)

text \<open>
  Claim C10. A tier whose ceiling field is present and 0 is matched like a tier without
  a ceiling: replacing every ceiling of 0 in a schedule by a missing ceiling does not
  change which tier the rule selects, and a tier with ceiling 0 contains every
  attainment at or above its floor, so that the scan stops at it.
\<close>

theorem C10_zero_ceiling:
  "findTierForAttainment a (map zeroAsUncapped tiers) =
     map_option zeroAsUncapped (findTierForAttainment a tiers) \<and>
   (Attainment_Ceiling__c tier = Some 0 \<and> orZero (Attainment_Floor__c tier) \<le> a \<longrightarrow>
      orInfinity (Attainment_Ceiling__c tier) = Infinity \<and>
      tierContains tier a \<and>
      findTierForAttainment a (tier # rest) = Some tier)"
  using findTierLoop_zeroAsUncapped [of a None tiers]
  by (simp add: findTierForAttainment_def tierContains_def)

theorem C10_zero_ceiling_witness:
  "Attainment_Ceiling__c zeroCeilingTier = Some 0 \<and>
   orZero (Attainment_Floor__c zeroCeilingTier) \<le> 120 \<and>
   tierContains zeroCeilingTier 120 \<and>
   findTierForAttainment 120 [zeroCeilingTier, acceleratorTier, superTier] = Some zeroCeilingTier \<and>
   findTierForAttainment 120 (map zeroAsUncapped [baseTier, zeroCeilingTier, acceleratorTier]) =
     Some (zeroCeilingTier\<lparr>Attainment_Ceiling__c := None\<rparr>)"
  using C10_zero_ceiling [of 120 "[baseTier, zeroCeilingTier, acceleratorTier]" zeroCeilingTier
      "[acceleratorTier, superTier]"]
  by (simp add: findTierForAttainment_def zeroAsUncapped_def example_inputs)

section \<open>The order of the deals\<close>

text \<open>
  Claim C7. For a positive quota and any list of deals, the deals as
  \<open>calculateDealByDealCommission\<close> sorts them are ascending by the time value of the
  close date and are a rearrangement of the input in which deals of equal close date
  keep their input order; the emitted records are, one for one and in this order, the
  records of the sorted deals.
\<close>

theorem C7_sorted_stable:
  "0 < quota \<Longrightarrow>
   sorted (map (\<lambda>d. getTime (CloseDate d)) (array_sort (closeDateCmp getTime) deals)) \<and>
   mset (array_sort (closeDateCmp getTime) deals) = mset deals \<and>
   (\<forall>t. filter (\<lambda>d. getTime (CloseDate d) = t) (array_sort (closeDateCmp getTime) deals) =
        filter (\<lambda>d. getTime (CloseDate d) = t) deals) \<and>
   map (\<lambda>r. (opportunityId r, opportunityName r, dealAmount r))
       (calculateDealByDealCommission getTime deals quota tiers) =
     map (\<lambda>d. (opp_Id d, opp_Name d, orZero (Amount d)))
       (array_sort (closeDateCmp getTime) deals)"
proof -
  assume q: "0 < quota"
  let ?sd = "array_sort (closeDateCmp getTime) deals"
  have sd: "?sd = sort_key (\<lambda>d. getTime (CloseDate d)) deals"
    by (rule sortedDeals_sort_key)
  have "map (\<lambda>r. (opportunityId r, opportunityName r, dealAmount r))
       (calculateDealByDealCommission getTime deals quota tiers) =
     map (\<lambda>d. (opp_Id d, opp_Name d, orZero (Amount d))) ?sd"
    by (simp only: calculateDealByDealCommission_loop [OF q] fold_dealStep_fields) simp
  moreover have "sorted (map (\<lambda>d. getTime (CloseDate d)) ?sd)" by (simp add: sd)
  moreover have "mset ?sd = mset deals" by (simp add: sd)
  moreover have "\<forall>t. filter (\<lambda>d. getTime (CloseDate d) = t) ?sd =
        filter (\<lambda>d. getTime (CloseDate d) = t) deals"
    by (simp add: sd sort_key_stable)
  ultimately show ?thesis by blast
qed

theorem C7_sorted_stable_witness:
  "(0::number) < 100000 \<and>
   array_sort (closeDateCmp exampleTime) [dealA, dealB, dealC] = [dealC, dealA, dealB] \<and>
   map (\<lambda>d. exampleTime (CloseDate d)) [dealC, dealA, dealB] =
     [1705276800000, 1706745600000, 1706745600000] \<and>
   map (\<lambda>r. (opportunityId r, opportunityName r, dealAmount r))
     (calculateDealByDealCommission exampleTime [dealA, dealB, dealC] 100000
        [superTier, baseTier, acceleratorTier]) =
     [(''C'', ''Coil'', 70000), (''A'', ''Acme'', 60000), (''B'', ''Blue'', 0)]"
proof -
  have sd: "array_sort (closeDateCmp exampleTime) [dealA, dealB, dealC] = [dealC, dealA, dealB]"
    by (simp add: array_sort_def closeDateCmp_def example_inputs)
  have q: "(0::number) < 100000" by simp
  from C7_sorted_stable [OF q, of exampleTime "[dealA, dealB, dealC]"
      "[superTier, baseTier, acceleratorTier]"]
  show ?thesis by (simp add: sd) (simp add: example_inputs)
qed

text \<open>
  Claim C9. When the amount of every deal (a missing amount counting as 0) is at least
  0, the running bookings of the emitted records never decrease along the output, for
  every quota.
\<close>

theorem C9_running_monotone:
  "\<forall>d\<in>set deals. 0 \<le> orZero (Amount d) \<Longrightarrow>
   sorted (map runningBookings (calculateDealByDealCommission getTime deals quota tiers))"
proof -
  assume nn: "\<forall>d\<in>set deals. 0 \<le> orZero (Amount d)"
  let ?sd = "array_sort (closeDateCmp getTime) deals"
  have "set ?sd = set deals" by (simp add: sortedDeals_sort_key)
  with nn have "\<forall>d\<in>set ?sd. 0 \<le> orZero (Amount d)" by simp
  then have "sorted (map runningBookings
      (snd (fold (dealStep quota (array_sort floorCmp tiers)) ?sd (0, []))))"
    by (rule fold_dealStep_running) simp_all
  then show ?thesis by (simp add: calculateDealByDealCommission_def)
qed

theorem C9_running_monotone_witness:
  "0 \<le> orZero (Amount dealA) \<and> 0 \<le> orZero (Amount dealB) \<and> 0 \<le> orZero (Amount dealC) \<and>
   (0::number) < 100000 \<and>
   map runningBookings
     (calculateDealByDealCommission exampleTime [dealA, dealB, dealC] 100000
        [superTier, baseTier, acceleratorTier]) = [70000, 130000, 130000] \<and>
   sorted (map runningBookings
     (calculateDealByDealCommission exampleTime [dealA, dealB, dealC] 100000
        [superTier, baseTier, acceleratorTier]))"
proof -
  have nn: "\<forall>d\<in>set [dealA, dealB, dealC]. 0 \<le> orZero (Amount d)"
    by (simp add: example_inputs)
  have sd: "array_sort (closeDateCmp exampleTime) [dealA, dealB, dealC] = [dealC, dealA, dealB]"
    by (simp add: array_sort_def closeDateCmp_def example_inputs)
  have run: "map runningBookings
     (calculateDealByDealCommission exampleTime [dealA, dealB, dealC] 100000
        [superTier, baseTier, acceleratorTier]) = [70000, 130000, 130000]"
    by (simp add: calculateDealByDealCommission_def sd dealStep_def Let_def)
       (simp add: example_inputs)
  from C9_running_monotone [OF nn, of exampleTime 100000 "[superTier, baseTier, acceleratorTier]"]
    nn run
  show ?thesis by simp
qed

section \<open>The caller's arrays are not changed\<close>

text \<open>
  Claim C8. Let \<open>tiers\<close> and \<open>deals\<close> be references to arrays of the store. After a
  call of either calculator every array that was in the store before the call is
  unchanged, in particular the arrays at \<open>tiers\<close> and \<open>deals\<close>: the sorting happens
  in arrays allocated by the call. The results are those of the functions on the
  contents of the two arrays.
\<close>

theorem C8_arrays_unchanged:
  assumes "tiers < length (tierArrays s)" and "deals < length (dealArrays s)"
  shows
   "(case calculateTieredCommission_store numToString bookings quota tiers s of
       (result, s') \<Rightarrow>
         take (length (tierArrays s)) (tierArrays s') = tierArrays s \<and>
         take (length (dealArrays s)) (dealArrays s') = dealArrays s \<and>
         tierArrays s' ! tiers = tierArrays s ! tiers \<and>
         dealArrays s' ! deals = dealArrays s ! deals \<and>
         result = calculateTieredCommission numToString bookings quota (tierArrays s ! tiers)) \<and>
    (case calculateDealByDealCommission_store getTime deals quota tiers s of
       (result, s') \<Rightarrow>
         take (length (tierArrays s)) (tierArrays s') = tierArrays s \<and>
         take (length (dealArrays s)) (dealArrays s') = dealArrays s \<and>
         tierArrays s' ! tiers = tierArrays s ! tiers \<and>
         dealArrays s' ! deals = dealArrays s ! deals \<and>
         result = calculateDealByDealCommission getTime (dealArrays s ! deals) quota
                    (tierArrays s ! tiers))"
proof -
  obtain r1 s1 where c1: "calculateTieredCommission_store numToString bookings quota tiers s = (r1, s1)"
    by (cases "calculateTieredCommission_store numToString bookings quota tiers s")
  obtain r2 s2 where c2: "calculateDealByDealCommission_store getTime deals quota tiers s = (r2, s2)"
    by (cases "calculateDealByDealCommission_store getTime deals quota tiers s")
  from tiered_store_eq [OF assms(1), of numToString bookings quota] c1
  have a: "r1 = calculateTieredCommission numToString bookings quota (tierArrays s ! tiers)"
    "take (length (tierArrays s)) (tierArrays s1) = tierArrays s"
    "dealArrays s1 = dealArrays s"
    by simp_all
  from deal_store_eq [OF assms, of getTime quota] c2
  have b: "r2 = calculateDealByDealCommission getTime (dealArrays s ! deals) quota (tierArrays s ! tiers)"
    "take (length (tierArrays s)) (tierArrays s2) = tierArrays s"
    "take (length (dealArrays s)) (dealArrays s2) = dealArrays s"
    by simp_all
  show ?thesis
    using a b assms nth_of_take [OF a(2) assms(1)] nth_of_take [OF b(2) assms(1)]
      nth_of_take [OF b(3) assms(2)]
    by (simp add: c1 c2)
qed

theorem C8_arrays_unchanged_witness:
  "(0::nat) < length (tierArrays exampleStore) \<and> (0::nat) < length (dealArrays exampleStore) \<and>
   tierArrays (snd (calculateTieredCommission_store (\<lambda>x. []) 150000 100000 0 exampleStore)) ! 0 =
     [superTier, baseTier, acceleratorTier] \<and>
   tierArrays (snd (calculateDealByDealCommission_store exampleTime 0 100000 0 exampleStore)) ! 0 =
     [superTier, baseTier, acceleratorTier] \<and>
   dealArrays (snd (calculateDealByDealCommission_store exampleTime 0 100000 0 exampleStore)) ! 0 =
     [dealA, dealB, dealC] \<and>
   dealArrays (snd (calculateDealByDealCommission_store exampleTime 0 100000 0 exampleStore)) ! 1 =
     [dealC, dealA, dealB]"
proof -
  have t: "(0::nat) < length (tierArrays exampleStore)" by (simp add: exampleStore_def)
  have d: "(0::nat) < length (dealArrays exampleStore)" by (simp add: exampleStore_def)
  have sd: "array_sort (closeDateCmp exampleTime) [dealA, dealB, dealC] = [dealC, dealA, dealB]"
    by (simp add: array_sort_def closeDateCmp_def example_inputs)
  have copy: "dealArrays (snd (calculateDealByDealCommission_store exampleTime 0 100000 0 exampleStore)) ! 1 =
     [dealC, dealA, dealB]"
    by (simp add: calculateDealByDealCommission_store_def spread_def sort_in_place_def
        exampleStore_def sd Let_def)
  from C8_arrays_unchanged [OF t d, of "\<lambda>x. []" 150000 100000 exampleTime] t d copy
  show ?thesis by (simp add: split_beta exampleStore_def)
qed

end
